theory Spec2Isabelle
  imports Main "HOL-Library.Char_ord" "HOL-Library.List_Lexorder" "HOL-Library.Multiset"
begin

section \<open>Python strings and values\<close>

text \<open>
  Strings are character lists. \<open>digit\<close>, \<open>str_nat\<close> and \<open>str_int\<close> are Python's decimal
  printing of an integer (\<open>'%d' % n\<close>, \<open>'%s' % n\<close>), \<open>fmt_02d\<close> is \<open>'%02d' % n\<close> for the
  non-negative counter of the prefix loop, \<open>startswith\<close> is \<open>str.startswith\<close>, \<open>split_char\<close>
  is \<open>str.split(sep)\<close> for a one-character separator and \<open>contains_char\<close> is
  \<open>sep in s\<close>.
\<close>

definition digit :: "nat \<Rightarrow> char" where
  "digit d = ''0123456789'' ! d"

fun str_nat :: "nat \<Rightarrow> string" where
  "str_nat n = (if n < 10 then [digit n] else str_nat (n div 10) @ [digit (n mod 10)])"

declare str_nat.simps [simp del]

definition str_int :: "int \<Rightarrow> string" where
  "str_int i = (if i < 0 then ''-'' @ str_nat (nat (- i)) else str_nat (nat i))"

definition fmt_02d :: "nat \<Rightarrow> string" where
  "fmt_02d n = (let s = str_nat n in replicate (2 - length s) (CHR ''0'') @ s)"

fun startswith :: "string \<Rightarrow> string \<Rightarrow> bool" where
  "startswith s [] = True"
| "startswith [] (p # ps) = False"
| "startswith (c # cs) (p # ps) = (c = p \<and> startswith cs ps)"

fun split_char :: "char \<Rightarrow> string \<Rightarrow> string list" where
  "split_char sep [] = [[]]"
| "split_char sep (c # cs) =
     (if c = sep then [] # split_char sep cs
      else (case split_char sep cs of [] \<Rightarrow> [[c]] | l # ls \<Rightarrow> (c # l) # ls))"

definition newline :: char where
  "newline = CHR 0x0A"

definition contains_char :: "char \<Rightarrow> string \<Rightarrow> bool" where
  "contains_char c s = (c \<in> set s)"

text \<open>
  The Python values the interface code passes around: \<open>None\<close>, booleans, integers and
  strings (lists and dictionaries are left out). \<open>truthy\<close> is the truth value Python
  gives a value in a condition and \<open>str_val\<close> is \<open>'%s' % v\<close>.
\<close>

datatype py_val = NoneV | BoolV bool | IntV int | StrV string

definition truthy :: "py_val \<Rightarrow> bool" where
  "truthy v = (case v of NoneV \<Rightarrow> False | BoolV b \<Rightarrow> b | IntV i \<Rightarrow> i \<noteq> 0 | StrV s \<Rightarrow> s \<noteq> [])"

definition str_val :: "py_val \<Rightarrow> string" where
  "str_val v =
     (case v of
        NoneV \<Rightarrow> ''None''
      | BoolV b \<Rightarrow> (if b then ''True'' else ''False'')
      | IntV i \<Rightarrow> str_int i
      | StrV s \<Rightarrow> s)"

text \<open>
  The exceptions the modelled code can raise. \<open>NoPrefixLength ip\<close> is the
  \<open>Exception('No prefix length set for IP address %s' % (ipstr,))\<close> of \<open>setIP\<close>;
  \<open>CommandError\<close> stands for whatever an external step raises
  (\<open>subprocess.CalledProcessError\<close>, an error of the node's shell);
  \<open>SystemExit n\<close> is \<open>exit(n)\<close>.
\<close>

datatype error =
    TypeError
  | ValueError
  | IndexError
  | KeyError string
  | AttributeError
  | UnboundLocalError string
  | NoPrefixLength string
  | CommandError
  | SystemExit int

text \<open>
  Text as Python 3 has it: \<open>subprocess.check_output\<close> returns \<open>bytes\<close>, which
  \<open>decode\<close> turns into a \<open>str\<close>. \<open>split_newline t\<close> is \<open>t.split(sep)\<close> with the newline
  separator given as a \<open>str\<close>, as the source writes it: on \<open>bytes\<close> it raises \<open>TypeError\<close>
  (a bytes-like separator is required).
\<close>

datatype py_text = Bytes string | Str string

definition decode :: "py_text \<Rightarrow> error + py_text" where
  "decode t = (case t of Bytes b \<Rightarrow> Inr (Str b) | Str s \<Rightarrow> Inl AttributeError)"

definition split_newline :: "py_text \<Rightarrow> error + string list" where
  "split_newline t = (case t of Bytes b \<Rightarrow> Inl TypeError | Str s \<Rightarrow> Inr (split_char newline s))"

section \<open>module.py: the naming prefix\<close>

text \<open>
  \<open>__create_hwsim_mgmt_devices\<close>, lines 57 to 67. \<open>mn_prefix num\<close> is
  \<open>"mn%02ds" % num\<close>; \<open>for_phy phys p\<close> is the inner \<open>for phy in phys\<close> loop and is True
  when the loop leaves through \<open>break\<close> (some name starts with \<open>p\<close>);
  \<open>while_not_numokay\<close> is the \<open>while not numokay\<close> loop from the counter \<open>num\<close>, returning
  the value of \<open>cls.prefix\<close> when the loop ends.
\<close>

definition mn_prefix :: "nat \<Rightarrow> string" where
  "mn_prefix num = ''mn'' @ fmt_02d num @ ''s''"

fun for_phy :: "string list \<Rightarrow> string \<Rightarrow> bool" where
  "for_phy [] p = False"
| "for_phy (phy # phys) p = (if startswith phy p then True else for_phy phys p)"

definition maxlen :: "string list \<Rightarrow> nat" where
  "maxlen phys = foldr (\<lambda>p m. max (length p) m) phys 0"

lemma str_nat_bound: "n < 10 ^ length (str_nat n)"
proof (induction n rule: str_nat.induct)
  case (1 n)
  show ?case
  proof (cases "n < 10")
    case True
    then show ?thesis by (simp add: str_nat.simps [of n])
  next
    case False
    with 1 have "n div 10 < 10 ^ length (str_nat (n div 10))" by simp
    then have "n < 10 * 10 ^ length (str_nat (n div 10))" by simp
    with False show ?thesis by (simp add: str_nat.simps [of n])
  qed
qed

lemma startswith_length: "startswith s p \<Longrightarrow> length p \<le> length s"
  by (induction s p rule: startswith.induct) auto

lemma maxlen_ge: "phy \<in> set phys \<Longrightarrow> length phy \<le> maxlen phys"
  by (induction phys) (auto simp: maxlen_def)

lemma for_phy_iff: "for_phy phys p \<longleftrightarrow> (\<exists>phy \<in> set phys. startswith phy p)"
  by (induction phys) auto

lemma for_phy_bound:
  assumes "for_phy phys (mn_prefix num)"
  shows "num < 10 ^ maxlen phys"
proof -
  from assms obtain phy where phy: "phy \<in> set phys" "startswith phy (mn_prefix num)"
    by (auto simp: for_phy_iff)
  have "length (str_nat num) \<le> length (mn_prefix num)"
    by (simp add: mn_prefix_def fmt_02d_def Let_def)
  also have "\<dots> \<le> length phy" using phy(2) by (rule startswith_length)
  also have "\<dots> \<le> maxlen phys" using phy(1) by (rule maxlen_ge)
  finally have "(10::nat) ^ length (str_nat num) \<le> 10 ^ maxlen phys"
    by (simp add: power_increasing)
  with str_nat_bound [of num] show ?thesis by linarith
qed

function while_not_numokay :: "string list \<Rightarrow> nat \<Rightarrow> string" where
  "while_not_numokay phys num =
     (if for_phy phys (mn_prefix num) then while_not_numokay phys (num + 1)
      else mn_prefix num)"
  by pat_completeness auto
termination
proof (relation "measure (\<lambda>(phys, num). 10 ^ maxlen phys - num)")
  show "wf (measure (\<lambda>(phys, num). 10 ^ maxlen phys - num))" by simp
next
  fix phys num
  assume "for_phy phys (mn_prefix num)"
  then have "num < 10 ^ maxlen phys" by (rule for_phy_bound)
  then show "((phys, num + 1), (phys, num)) \<in> measure (\<lambda>(phys, num). 10 ^ maxlen phys - num)"
    by simp
qed

declare while_not_numokay.simps [simp del]

text \<open>
  The class-wide state of \<open>module\<close> (lines 16 to 21, and \<open>wlans\<close> of line 153).
  \<open>phys_output\<close> is the output of the \<open>find ... | cut | sort\<close> pipeline of line 54 after
  the \<open>decode('utf-8')\<close> of line 56, a \<open>str\<close>.
\<close>

record module =
  wlan_list :: "string list"
  wlans :: "string list"
  hwsim_ids :: "string list"
  prefix :: string
  externally_managed :: bool
  devices_created_dynamically :: bool
  phyID :: int

definition create_hwsim_mgmt_devices :: "module \<Rightarrow> string \<Rightarrow> module" where
  "create_hwsim_mgmt_devices cls phys_output =
     cls\<lparr>prefix := while_not_numokay (split_char newline phys_output) 0\<rparr>"

lemma while_not_numokay_first:
  "\<not> for_phy phys (mn_prefix k) \<Longrightarrow> num \<le> k \<Longrightarrow>
   (\<And>j. num \<le> j \<Longrightarrow> j < k \<Longrightarrow> for_phy phys (mn_prefix j)) \<Longrightarrow>
   while_not_numokay phys num = mn_prefix k"
proof (induction "k - num" arbitrary: num)
  case 0
  then have "num = k" by simp
  with 0 show ?case by (simp add: while_not_numokay.simps [of phys k])
next
  case (Suc d)
  then have lt: "num < k" by simp
  then have "for_phy phys (mn_prefix num)" using Suc.prems(3) by simp
  moreover have "while_not_numokay phys (num + 1) = mn_prefix k"
    using Suc lt by (intro Suc.hyps(1)) auto
  ultimately show ?case by (simp add: while_not_numokay.simps [of phys num])
qed

lemma free_counter_exists: "\<exists>k. \<not> for_phy phys (mn_prefix k)"
proof
  show "\<not> for_phy phys (mn_prefix (10 ^ maxlen phys))"
  proof
    assume "for_phy phys (mn_prefix (10 ^ maxlen phys))"
    then have "(10::nat) ^ maxlen phys < 10 ^ maxlen phys" by (rule for_phy_bound)
    then show False by simp
  qed
qed

lemma while_not_numokay_Least:
  "while_not_numokay phys 0 = mn_prefix (LEAST k. \<not> for_phy phys (mn_prefix k))"
proof -
  obtain k0 where "\<not> for_phy phys (mn_prefix k0)" using free_counter_exists by blast
  then have a: "\<not> for_phy phys (mn_prefix (LEAST k. \<not> for_phy phys (mn_prefix k)))"
    by (rule LeastI)
  have b: "\<And>j. j < (LEAST k. \<not> for_phy phys (mn_prefix k)) \<Longrightarrow> for_phy phys (mn_prefix j)"
    using not_less_Least by blast
  show ?thesis by (rule while_not_numokay_first [OF a], simp, rule b)
qed

text \<open>
  C3. For every list \<open>phys\<close> of existing device-group names, the prefix that
  \<open>__create_hwsim_mgmt_devices\<close> derives (the loop started at counter 0) is
  \<open>"mn%02ds" % k\<close> for the least counter \<open>k\<close> such that no name of \<open>phys\<close> starts with
  that prefix; the same holds for the prefix stored from the command output, whose names
  are its lines; and for the names \<open>mn00s\<close>, \<open>mn01s\<close> the prefix is \<open>mn02s\<close>.
\<close>

theorem prefix_is_first_free:
  "while_not_numokay phys 0 = mn_prefix (LEAST k. \<not> for_phy phys (mn_prefix k))
   \<and> \<not> for_phy phys (while_not_numokay phys 0)
   \<and> prefix (create_hwsim_mgmt_devices cls out) =
       mn_prefix (LEAST k. \<not> for_phy (split_char newline out) (mn_prefix k))
   \<and> while_not_numokay [''mn00s'', ''mn01s''] 0 = ''mn02s''"
proof -
  obtain k0 where "\<not> for_phy phys (mn_prefix k0)" using free_counter_exists by blast
  then have "\<not> for_phy phys (mn_prefix (LEAST k. \<not> for_phy phys (mn_prefix k)))"
    by (rule LeastI)
  then have free: "\<not> for_phy phys (while_not_numokay phys 0)"
    by (simp add: while_not_numokay_Least)
  have ex: "while_not_numokay [''mn00s'', ''mn01s''] 0 = ''mn02s''"
    by (simp add: while_not_numokay.simps mn_prefix_def fmt_02d_def str_nat.simps digit_def)
  show ?thesis
    using free ex by (simp add: while_not_numokay_Least create_hwsim_mgmt_devices_def)
qed

section \<open>External steps\<close>

text \<open>
  Every shell command the two files build is a constructor of \<open>command\<close> carrying the values
  formatted into it; an \<open>event\<close> is one external call: \<open>subprocess.check_output\<close>,
  \<open>os.system\<close>, \<open>node.cmd\<close> and \<open>node.pexec\<close> of the node of that name, and the node's
  bookkeeping methods. The state of the world is the list of the events so far; \<open>run E w ev\<close>
  is what the call \<open>ev\<close> gives after the history \<open>w\<close>: an exception or the characters
  of the output (what the caller gets is \<open>bytes\<close> from \<open>subprocess.check_output\<close> and a
  \<open>str\<close> from the node's methods). \<open>exec\<close> performs a call and appends it to the history.
\<close>

datatype command =
    IwpanDevInterfaces
  | IwpanDevPhy string
  | IwpanPhySetNetns string int
  | IpLinkSetDown string
  | IpLinkSetUp string
  | IpLinkSetName string string
  | IpLinkSetLoUp
  | IwpanSetPanId string string
  | IpLinkAddLowpan string string
  | IpAddrShow string
  | IpAddrFlush string
  | Ip6AddrAdd string string
  | IpLinkSet string "string list"
  | IpLinkShow
  | IpLinkDel string

datatype event =
    CheckOutput command
  | OsSystem command
  | NodeCmd string command
  | NodePexec string command
  | AddIntf string string py_val bool
  | DelIntf string string
  | NewPort string
  | NewWlanPort string

record env =
  run :: "event list \<Rightarrow> event \<Rightarrow> error + string"
  newPort :: "event list \<Rightarrow> string \<Rightarrow> int"
  newWlanPort :: "event list \<Rightarrow> string \<Rightarrow> int"

definition exec :: "env \<Rightarrow> event list \<Rightarrow> event \<Rightarrow> error + (string \<times> event list)" where
  "exec E w ev = (case run E w ev of Inl e \<Rightarrow> Inl e | Inr out \<Rightarrow> Inr (out, w @ [ev]))"

section \<open>module.py: the free-device pool\<close>

text \<open>
  \<open>get_virtual_wlan\<close>, lines 151 to 160: \<open>cls.wlans\<close> is emptied, the output of
  \<open>check_output\<close> is split at newlines without being decoded, the last piece is popped,
  the names are sorted (\<open>sorted\<close>) and sorted again by length (\<open>sort(key=len)\<close>, a stable
  sort, as \<open>sort_key\<close> is). The exception of a failing step leaves the function with the
  state as it is then.
\<close>

definition get_virtual_wlan ::
  "env \<Rightarrow> module \<Rightarrow> event list \<Rightarrow> (error + string list) \<times> module \<times> event list" where
  "get_virtual_wlan E cls w =
     (let cls0 = cls\<lparr>wlans := []\<rparr> in
      (case exec E w (CheckOutput IwpanDevInterfaces) of
         Inl e \<Rightarrow> (Inl e, cls0, w)
       | Inr (out, w1) \<Rightarrow>
           (case split_newline (Bytes out) of
              Inl e \<Rightarrow> (Inl e, cls0, w1)
            | Inr pieces \<Rightarrow>
                (let popped = butlast pieces;
                     sorted_names = sort popped;
                     by_len = sort_key length sorted_names
                 in (Inr by_len, cls0\<lparr>wlans := popped, wlan_list := by_len\<rparr>, w1)))))"

definition iwpan_out0 :: string where
  "iwpan_out0 = ''wpan10'' @ [newline] @ ''wpan9'' @ [newline] @ ''wpan0'' @ [newline]"

definition phy_out0 :: string where
  "phy_out0 = ''0'' @ [newline]"

definition env0 :: env where
  "env0 = \<lparr>run = (\<lambda>w ev. case ev of
                     CheckOutput IwpanDevInterfaces \<Rightarrow> Inr iwpan_out0
                   | CheckOutput (IwpanDevPhy d) \<Rightarrow> Inr phy_out0
                   | _ \<Rightarrow> Inr []),
           newPort = (\<lambda>w n. 0), newWlanPort = (\<lambda>w n. 0)\<rparr>"

definition module0 :: module where
  "module0 = \<lparr>wlan_list = [], wlans = [], hwsim_ids = [], prefix = [],
     externally_managed = False, devices_created_dynamically = False, phyID = 0\<rparr>"

text \<open>
  C6, as the code behaves. Whatever the interface listing returns, \<open>get_virtual_wlan\<close>
  raises \<open>TypeError\<close> at \<open>split\<close>, since the output is \<open>bytes\<close> and the separator a \<open>str\<close>:
  it never returns a list, and the pool \<open>cls.wlan_list\<close> is neither filled nor sorted. For
  the listing of three devices the call ends with \<open>TypeError\<close> and the pool as it was.
\<close>

theorem get_virtual_wlan_raises:
  "get_virtual_wlan env0 module0 [] =
     (Inl TypeError, module0\<lparr>wlans := []\<rparr>, [CheckOutput IwpanDevInterfaces])
   \<and> wlan_list (fst (snd (get_virtual_wlan env0 module0 []))) = wlan_list module0
   \<and> \<not> (\<exists>names cls' w'. get_virtual_wlan E cls w = (Inr names, cls', w'))
   \<and> wlan_list (fst (snd (get_virtual_wlan E cls w))) = wlan_list cls"
proof -
  have 1: "get_virtual_wlan env0 module0 [] =
     (Inl TypeError, module0\<lparr>wlans := []\<rparr>, [CheckOutput IwpanDevInterfaces])"
    by (simp add: get_virtual_wlan_def exec_def env0_def split_newline_def)
  have 2: "\<exists>e cls' w'. get_virtual_wlan E cls w = (Inl e, cls', w') \<and> wlan_list cls' = wlan_list cls"
    by (simp add: get_virtual_wlan_def split_newline_def Let_def split: sum.splits prod.splits)
  then obtain e cls' w' where 3: "get_virtual_wlan E cls w = (Inl e, cls', w')"
    and 4: "wlan_list cls' = wlan_list cls" by blast
  have 5: "\<not> (\<exists>names cls' w'. get_virtual_wlan E cls w = (Inr names, cls', w'))"
    using 3 by simp
  have 6: "wlan_list (fst (snd (get_virtual_wlan E cls w))) = wlan_list cls"
    using 3 4 by simp
  have 7: "wlan_list (fst (snd (get_virtual_wlan env0 module0 []))) = wlan_list module0"
    using 1 by simp
  show ?thesis using 1 5 6 7 by blast
qed

section \<open>module.py: assigning the devices\<close>

text \<open>
  A node as \<open>assign_iface\<close> uses it: its name and pid, whether it is a \<open>Station\<close> or a
  \<open>Car\<close>, its \<open>params\<close> dictionary (the values read here are lists of strings), its
  \<open>phyID\<close> array and its \<open>ifb\<close> list. The nodes of the list are distinct objects; the loop
  returns them updated.
\<close>

datatype node_class = Station | Car | OtherNode

record node =
  node_name :: string
  node_class :: node_class
  node_pid :: int
  node_params :: "string \<Rightarrow> string list option"
  node_phyID :: "int list"
  node_ifb :: "string list"

text \<open>
  The argument \<open>phys\<close>. \<open>start\<close> (lines 147 and 148) passes the list that
  \<open>get_virtual_wlan\<close> returned, which is the object \<open>cls.wlan_list\<close> itself: then
  \<open>phys[0]\<close> reads the pool as it is at that moment (\<open>WlanList\<close>). Any other caller
  passes a list of its own, which \<open>assign_iface\<close> never changes (\<open>Phys l\<close>).
\<close>

datatype phys_arg = WlanList | Phys "string list"

definition phys_value :: "module \<Rightarrow> phys_arg \<Rightarrow> string list" where
  "phys_value cls phys = (case phys of WlanList \<Rightarrow> wlan_list cls | Phys l \<Rightarrow> l)"

text \<open>
  \<open>getPhy\<close>, lines 163 to 169: the output of \<open>check_output\<close> is split at newlines without
  being decoded, the last piece popped, and the first of the rest returned; \<open>phy[0]\<close>
  raises \<open>IndexError\<close> when nothing is left.
\<close>

definition getPhy :: "env \<Rightarrow> event list \<Rightarrow> string \<Rightarrow> error + (string \<times> event list)" where
  "getPhy E w wlan =
     (case exec E w (CheckOutput (IwpanDevPhy wlan)) of
        Inl e \<Rightarrow> Inl e
      | Inr (out, w1) \<Rightarrow>
          (case split_newline (Bytes out) of
             Inl e \<Rightarrow> Inl e
           | Inr pieces \<Rightarrow>
               (case butlast pieces of
                  [] \<Rightarrow> Inl IndexError
                | p # _ \<Rightarrow> Inr (p, w1))))"

text \<open>
  \<open>assign_iface\<close>, lines 181 to 218. \<open>assign_wlan\<close> is the body of the inner loop for the
  slot \<open>wlan\<close> (lines 200 to 212): the store into \<open>node.phyID[wlan]\<close> raises
  \<open>IndexError\<close> out of range, as \<open>phys[0]\<close> and \<open>cls.wlan_list[0]\<close> do on an empty list.
  \<open>for_wlan\<close> is the loop over \<open>range(0, len(node.params['wlan']))\<close>, \<open>for_node\<close> the loop
  over the nodes with its guard (\<open>in_namespace\<close>, lines 196 and 197), and \<open>assign_iface\<close>
  wraps them in the \<open>try\<close>: any exception ends the process with \<open>exit(1)\<close>.
\<close>

definition assign_wlan ::
  "env \<Rightarrow> phys_arg \<Rightarrow> nat \<Rightarrow> module \<times> node \<times> event list
     \<Rightarrow> error + (module \<times> node \<times> event list)" where
  "assign_wlan E phys wlan = (\<lambda>(cls, node, w).
     if \<not> wlan < length (node_phyID node) then Inl IndexError
     else
       let node1 = node\<lparr>node_phyID := (node_phyID node)[wlan := phyID cls]\<rparr>;
           cls1 = cls\<lparr>phyID := phyID cls + 1\<rparr>
       in
       (case phys_value cls1 phys of
          [] \<Rightarrow> Inl IndexError
        | phys0 # _ \<Rightarrow>
       (case getPhy E w phys0 of
          Inl e \<Rightarrow> Inl e
        | Inr (phy, w1) \<Rightarrow>
       (case exec E w1 (OsSystem (IwpanPhySetNetns phy (node_pid node1))) of
          Inl e \<Rightarrow> Inl e
        | Inr (_, w2) \<Rightarrow>
       (case wlan_list cls1 of
          [] \<Rightarrow> Inl IndexError
        | dev # rest \<Rightarrow>
       (case exec E w2 (NodeCmd (node_name node1) (IpLinkSetDown dev)) of
          Inl e \<Rightarrow> Inl e
        | Inr (_, w3) \<Rightarrow>
       (case node_params node1 ''wlan'' of
          None \<Rightarrow> Inl (KeyError ''wlan'')
        | Some names \<Rightarrow>
       if \<not> wlan < length names then Inl IndexError
       else
       (case exec E w3 (NodeCmd (node_name node1) (IpLinkSetName dev (names ! wlan))) of
          Inl e \<Rightarrow> Inl e
        | Inr (_, w4) \<Rightarrow> Inr (cls1\<lparr>wlan_list := rest\<rparr>, node1, w4)))))))))"

fun for_wlan ::
  "env \<Rightarrow> phys_arg \<Rightarrow> nat list \<Rightarrow> module \<times> node \<times> event list
     \<Rightarrow> error + (module \<times> node \<times> event list)" where
  "for_wlan E phys [] s = Inr s"
| "for_wlan E phys (wlan # rest) s =
     (case assign_wlan E phys wlan s of
        Inl e \<Rightarrow> Inl e
      | Inr s' \<Rightarrow> for_wlan E phys rest s')"

definition in_namespace :: "node \<Rightarrow> bool" where
  "in_namespace node =
     ((node_class node = Station \<or> node_class node = Car)
      \<or> node_params node ''inNamespace'' \<noteq> None)"

fun for_node ::
  "env \<Rightarrow> phys_arg \<Rightarrow> node list \<Rightarrow> module \<times> event list
     \<Rightarrow> error + (node list \<times> module \<times> event list)" where
  "for_node E phys [] (cls, w) = Inr ([], cls, w)"
| "for_node E phys (node # rest) (cls, w) =
     (if in_namespace node then
        (case node_params node ''wlan'' of
           None \<Rightarrow> Inl (KeyError ''wlan'')
         | Some names \<Rightarrow>
        (case for_wlan E phys [0..<length names] (cls, node\<lparr>node_ifb := []\<rparr>, w) of
           Inl e \<Rightarrow> Inl e
         | Inr (cls', node', w') \<Rightarrow>
        (case for_node E phys rest (cls', w') of
           Inl e \<Rightarrow> Inl e
         | Inr (rest', cls'', w'') \<Rightarrow> Inr (node' # rest', cls'', w''))))
      else
        (case for_node E phys rest (cls, w) of
           Inl e \<Rightarrow> Inl e
         | Inr (rest', cls'', w'') \<Rightarrow> Inr (node # rest', cls'', w'')))"

definition assign_iface ::
  "env \<Rightarrow> module \<Rightarrow> node list \<Rightarrow> phys_arg \<Rightarrow> event list
     \<Rightarrow> error + (node list \<times> module \<times> event list)" where
  "assign_iface E cls nodes phys w =
     (case for_node E phys nodes (cls, w) of
        Inl e \<Rightarrow> Inl (SystemExit 1)
      | Inr r \<Rightarrow> Inr r)"

text \<open>
  What a run is asked and what it leaves in the nodes. \<open>requests nodes\<close> lists the
  (node, slot) pairs the loops visit, each as (node, requested interface name): the slots
  of the nodes that pass the guard, in order. \<open>recorded nodes\<close> lists the ids stored in
  \<open>node.phyID\<close> for those slots, in the same order.
\<close>

definition requests_of :: "node \<Rightarrow> (string \<times> string) list" where
  "requests_of node =
     (if in_namespace node then
        (case node_params node ''wlan'' of
           None \<Rightarrow> []
         | Some names \<Rightarrow> map (\<lambda>nm. (node_name node, nm)) names)
      else [])"

definition requests :: "node list \<Rightarrow> (string \<times> string) list" where
  "requests nodes = concat (map requests_of nodes)"

definition recorded_of :: "node \<Rightarrow> int list" where
  "recorded_of node =
     (if in_namespace node then
        (case node_params node ''wlan'' of
           None \<Rightarrow> []
         | Some names \<Rightarrow> take (length names) (node_phyID node))
      else [])"

definition recorded :: "node list \<Rightarrow> int list" where
  "recorded nodes = concat (map recorded_of nodes)"

text \<open>Concrete inputs: stations with their requested interface names, and a pool.\<close>

definition station :: "string \<Rightarrow> int \<Rightarrow> string list \<Rightarrow> node" where
  "station n p names =
     \<lparr>node_name = n, node_class = Station, node_pid = p,
      node_params = (\<lambda>k. if k = ''wlan'' then Some names else None),
      node_phyID = map (\<lambda>_. 0) names, node_ifb = []\<rparr>"

definition pool0 :: "string list" where
  "pool0 = [''wpan0'', ''wpan1'', ''wpan2'', ''wpan3'', ''wpan4'']"

definition module_pool0 :: module where
  "module_pool0 = module0\<lparr>wlan_list := pool0\<rparr>"

definition nodes_1_1 :: "node list" where
  "nodes_1_1 = [station ''A'' 101 [''A-wpan0''], station ''B'' 102 [''B-wpan0'']]"

definition nodes_2_2 :: "node list" where
  "nodes_2_2 = [station ''sta1'' 101 [''sta1-wpan0'', ''sta1-wpan1''],
                station ''sta2'' 102 [''sta2-wpan0'', ''sta2-wpan1'']]"

lemma getPhy_Inl: "\<exists>e. getPhy E w d = Inl e"
  by (simp add: getPhy_def exec_def split_newline_def split: sum.splits)

lemma assign_wlan_Inl: "\<exists>e. assign_wlan E phys wlan s = Inl e"
proof -
  obtain cls nd w where s: "s = (cls, nd, w)" by (cases s) auto
  show ?thesis
  proof (cases "wlan < length (node_phyID nd)")
    case False
    with s show ?thesis by (simp add: assign_wlan_def)
  next
    case True
    show ?thesis
    proof (cases "phys_value (cls\<lparr>phyID := phyID cls + 1\<rparr>) phys")
      case Nil
      with s True show ?thesis by (simp add: assign_wlan_def Let_def)
    next
      case (Cons phys0 rest)
      from getPhy_Inl obtain e where "getPhy E w phys0 = Inl e" by blast
      with s True Cons show ?thesis by (simp add: assign_wlan_def Let_def)
    qed
  qed
qed

lemma for_wlan_Inl: "\<exists>e. for_wlan E phys (wlan # rest) s = Inl e"
proof -
  from assign_wlan_Inl obtain e where "assign_wlan E phys wlan s = Inl e" by blast
  then show ?thesis by simp
qed

lemma requests_Cons: "requests (nd # rest) = requests_of nd @ requests rest"
  by (simp add: requests_def)

lemma recorded_Cons: "recorded (nd # rest) = recorded_of nd @ recorded rest"
  by (simp add: recorded_def)

lemma for_node_Inr:
  assumes "for_node E phys nodes (cls, w) = Inr (nodes', cls', w')"
  shows "requests nodes = [] \<and> recorded nodes' = [] \<and> cls' = cls \<and> w' = w"
  using assms
proof (induction nodes arbitrary: nodes')
  case Nil
  then show ?case by (simp add: requests_def recorded_def)
next
  case (Cons nd rest)
  show ?case
  proof (cases "in_namespace nd")
    case False
    from Cons.prems False obtain rest' where
      r: "for_node E phys rest (cls, w) = Inr (rest', cls', w')" and n: "nodes' = nd # rest'"
      by (auto split: sum.splits)
    have "requests_of nd = []" "recorded_of nd = []"
      using False by (simp_all add: requests_of_def recorded_of_def)
    with Cons.IH [OF r] n show ?thesis by (simp add: requests_Cons recorded_Cons)
  next
    case True
    from Cons.prems True obtain names where nm: "node_params nd ''wlan'' = Some names"
      by (auto split: option.splits)
    have empty: "names = []"
    proof (rule ccontr)
      assume "names \<noteq> []"
      then have "[0..<length names] = 0 # [1..<length names]" by (simp add: upt_rec)
      with for_wlan_Inl [of E phys 0 "[1..<length names]" "(cls, nd\<lparr>node_ifb := []\<rparr>, w)"]
      obtain e where "for_wlan E phys [0..<length names] (cls, nd\<lparr>node_ifb := []\<rparr>, w) = Inl e"
        by auto
      with Cons.prems True nm show False by simp
    qed
    with Cons.prems True nm obtain rest' where
      r: "for_node E phys rest (cls, w) = Inr (rest', cls', w')"
      and n: "nodes' = nd\<lparr>node_ifb := []\<rparr> # rest'"
      by (auto split: sum.splits)
    have "requests_of nd = []" using True nm empty by (simp add: requests_of_def)
    moreover have "recorded_of (nd\<lparr>node_ifb := []\<rparr>) = []"
      using True nm empty by (simp add: recorded_of_def in_namespace_def)
    ultimately show ?thesis using Cons.IH [OF r] n by (simp add: requests_Cons recorded_Cons)
  qed
qed

lemma assign_iface_Inr:
  "assign_iface E cls nodes phys w = Inr r \<Longrightarrow> for_node E phys nodes (cls, w) = Inr r"
  by (auto simp: assign_iface_def split: sum.splits)

lemma assign_iface_exits:
  assumes "requests nodes \<noteq> []"
  shows "assign_iface E cls nodes phys w = Inl (SystemExit 1)"
proof (cases "for_node E phys nodes (cls, w)")
  case (Inl e)
  then show ?thesis by (simp add: assign_iface_def)
next
  case (Inr r)
  obtain nodes' cls' w' where "r = (nodes', cls', w')" by (cases r) auto
  with Inr for_node_Inr [of E phys nodes cls w nodes' cls' w'] assms show ?thesis by simp
qed

lemma requests_nodes_1_1: "requests nodes_1_1 = [(''A'', ''A-wpan0''), (''B'', ''B-wpan0'')]"
  by (simp add: nodes_1_1_def requests_def requests_of_def station_def in_namespace_def)

lemma requests_nodes_2_2: "length (requests nodes_2_2) = 4"
  by (simp add: nodes_2_2_def requests_def requests_of_def station_def in_namespace_def)

text \<open>
  C1, as the code behaves. With two stations asking for one radio each and a pool of five
  devices, every external step answering, \<open>assign_iface\<close> does not consume two devices: in
  the first slot \<open>getPhy\<close> raises \<open>TypeError\<close> (it splits the undecoded output), the
  \<open>except\<close> clause ends the process with \<open>exit(1)\<close>, and nothing was popped. No run that
  returns has visited a slot: a returning run leaves the class state and the history as
  they were.
\<close>

theorem assign_iface_exits_before_pop:
  "assign_iface env0 module_pool0 nodes_1_1 WlanList [] = Inl (SystemExit 1)
   \<and> assign_wlan env0 WlanList 0 (module_pool0, station ''A'' 101 [''A-wpan0''], []) = Inl TypeError
   \<and> \<not> (\<exists>r. assign_iface E cls nodes phys w = Inr r \<and> requests nodes \<noteq> [])
   \<and> \<not> (\<exists>nodes' cls' w'. assign_iface E cls nodes phys w = Inr (nodes', cls', w')
              \<and> wlan_list cls' \<noteq> wlan_list cls)"
proof -
  have "requests nodes_1_1 \<noteq> []" by (simp add: requests_nodes_1_1)
  then have 1: "assign_iface env0 module_pool0 nodes_1_1 WlanList [] = Inl (SystemExit 1)"
    by (rule assign_iface_exits)
  have 2: "assign_wlan env0 WlanList 0 (module_pool0, station ''A'' 101 [''A-wpan0''], []) =
      Inl TypeError"
    by (simp add: assign_wlan_def Let_def station_def phys_value_def module_pool0_def module0_def
        pool0_def getPhy_def exec_def env0_def split_newline_def)
  have 3: "\<not> (\<exists>r. assign_iface E cls nodes phys w = Inr r \<and> requests nodes \<noteq> [])"
    using assign_iface_exits [of nodes E cls phys w] by auto
  have 4: "\<not> (\<exists>nodes' cls' w'. assign_iface E cls nodes phys w = Inr (nodes', cls', w')
              \<and> wlan_list cls' \<noteq> wlan_list cls)"
    using for_node_Inr [of E phys nodes cls w] by (auto dest!: assign_iface_Inr)
  show ?thesis using 1 2 3 4 by blast
qed

text \<open>
  C5, as the code behaves. With two stations of two slots each, \<open>assign_iface\<close> does not
  record four ids: the first slot stores the counter and then \<open>getPhy\<close> raises
  \<open>TypeError\<close>, so the process ends with \<open>exit(1)\<close> in the first slot. No run that returns
  has recorded any id or moved the counter.
\<close>

theorem phy_ids_never_recorded:
  "assign_iface env0 module_pool0 nodes_2_2 WlanList [] = Inl (SystemExit 1)
   \<and> assign_wlan env0 WlanList 0
        (module_pool0, station ''sta1'' 101 [''sta1-wpan0'', ''sta1-wpan1''], []) = Inl TypeError
   \<and> \<not> (\<exists>nodes' cls' w'. assign_iface E cls nodes phys w = Inr (nodes', cls', w')
              \<and> recorded nodes' \<noteq> [])
   \<and> \<not> (\<exists>nodes' cls' w'. assign_iface E cls nodes phys w = Inr (nodes', cls', w')
              \<and> phyID cls' \<noteq> phyID cls)"
proof -
  have "requests nodes_2_2 \<noteq> []" using requests_nodes_2_2 by auto
  then have 1: "assign_iface env0 module_pool0 nodes_2_2 WlanList [] = Inl (SystemExit 1)"
    by (rule assign_iface_exits)
  have 2: "assign_wlan env0 WlanList 0
        (module_pool0, station ''sta1'' 101 [''sta1-wpan0'', ''sta1-wpan1''], []) = Inl TypeError"
    by (simp add: assign_wlan_def Let_def station_def phys_value_def module_pool0_def module0_def
        pool0_def getPhy_def exec_def env0_def split_newline_def)
  have 3: "\<not> (\<exists>nodes' cls' w'. assign_iface E cls nodes phys w = Inr (nodes', cls', w')
              \<and> recorded nodes' \<noteq> [])"
    using for_node_Inr [of E phys nodes cls w] by (auto dest!: assign_iface_Inr)
  have 4: "\<not> (\<exists>nodes' cls' w'. assign_iface E cls nodes phys w = Inr (nodes', cls', w')
              \<and> phyID cls' \<noteq> phyID cls)"
    using for_node_Inr [of E phys nodes cls w] by (auto dest!: assign_iface_Inr)
  show ?thesis using 1 2 3 4 by blast
qed

section \<open>link.py: the interface handle\<close>

text \<open>
  \<open>contains_str sub s\<close> is Python's \<open>sub in s\<close> on strings.
\<close>

fun contains_str :: "string \<Rightarrow> string \<Rightarrow> bool" where
  "contains_str sub [] = (sub = [])"
| "contains_str sub (c # cs) = (startswith (c # cs) sub \<or> contains_str sub cs)"

text \<open>
  An \<open>IntfSixLoWPAN\<close> object: the fields its constructor sets (lines 17 to 21 and 36).
  A method takes the handle and the history and returns its result or the exception it
  raised, with the handle and the history as they are then.
\<close>

record intf =
  name :: string
  node :: "node option"
  link :: py_val
  mac :: py_val
  ip :: py_val
  prefixLen :: py_val
  params :: "string \<Rightarrow> py_val option"

type_synonym 'a outcome = "(error + 'a) \<times> intf \<times> event list"

text \<open>
  \<open>cmd\<close> (line 39) delegates to the owning node and fails with \<open>AttributeError\<close> when the
  handle has none; \<open>ipAddr\<close> (lines 43 to 49), \<open>ipLink\<close> (51 to 53), \<open>setIP\<close> (55 to 67),
  \<open>setMAC\<close> (69 to 75) and \<open>isUp\<close> (118 to 129) follow the source line by line. In
  \<open>setIP\<close>, \<open>'/' in ipstr\<close> raises \<open>TypeError\<close> for a value that is not a string, and
  unpacking \<open>ipstr.split('/')\<close> into two names raises \<open>ValueError\<close> unless there are exactly
  two pieces.
\<close>

definition cmd :: "env \<Rightarrow> command \<Rightarrow> intf \<Rightarrow> event list \<Rightarrow> string outcome" where
  "cmd E c self w =
     (case node self of
        None \<Rightarrow> (Inl AttributeError, self, w)
      | Some nd \<Rightarrow>
          (case exec E w (NodeCmd (node_name nd) c) of
             Inl e \<Rightarrow> (Inl e, self, w)
           | Inr (out, w1) \<Rightarrow> (Inr out, self, w1)))"

definition ipAddr :: "env \<Rightarrow> py_val list \<Rightarrow> intf \<Rightarrow> event list \<Rightarrow> py_val outcome" where
  "ipAddr E args self w =
     (if length args = 0 then
        (case cmd E (IpAddrShow (name self)) self w of
           (Inl e, s, w1) \<Rightarrow> (Inl e, s, w1)
         | (Inr out, s, w1) \<Rightarrow> (Inr (StrV out), s, w1))
      else
        (case cmd E (IpAddrFlush (name self)) self w of
           (Inl e, s, w1) \<Rightarrow> (Inl e, s, w1)
         | (Inr _, s, w1) \<Rightarrow>
             (case cmd E (Ip6AddrAdd (str_val (args ! 0)) (name s)) s w1 of
                (Inl e, s2, w2) \<Rightarrow> (Inl e, s2, w2)
              | (Inr out, s2, w2) \<Rightarrow> (Inr (StrV out), s2, w2))))"

definition ipLink :: "env \<Rightarrow> py_val list \<Rightarrow> intf \<Rightarrow> event list \<Rightarrow> string outcome" where
  "ipLink E args self w = cmd E (IpLinkSet (name self) (map str_val args)) self w"

definition setIP :: "env \<Rightarrow> py_val \<Rightarrow> py_val \<Rightarrow> intf \<Rightarrow> event list \<Rightarrow> py_val outcome" where
  "setIP E ipstr plen self w =
     (case ipstr of
        StrV s \<Rightarrow>
          (if contains_char (CHR ''/'') s then
             (case split_char (CHR ''/'') s of
                [a, b] \<Rightarrow> ipAddr E [ipstr] (self\<lparr>ip := StrV a, prefixLen := StrV b\<rparr>) w
              | _ \<Rightarrow> (Inl ValueError, self, w))
           else
             (if plen = NoneV then (Inl (NoPrefixLength s), self, w)
              else ipAddr E [StrV (s @ ''/'' @ str_val plen)]
                     (self\<lparr>ip := ipstr, prefixLen := plen\<rparr>) w))
      | _ \<Rightarrow> (Inl TypeError, self, w))"

definition setMAC :: "env \<Rightarrow> py_val \<Rightarrow> intf \<Rightarrow> event list \<Rightarrow> py_val outcome" where
  "setMAC E macstr self w =
     (case ipLink E [StrV ''down''] (self\<lparr>mac := macstr\<rparr>) w of
        (Inl e, s, w1) \<Rightarrow> (Inl e, s, w1)
      | (Inr o1, s1, w1) \<Rightarrow>
     (case ipLink E [StrV ''address'', macstr] s1 w1 of
        (Inl e, s, w2) \<Rightarrow> (Inl e, s, w2)
      | (Inr o2, s2, w2) \<Rightarrow>
     (case ipLink E [StrV ''up''] s2 w2 of
        (Inl e, s, w3) \<Rightarrow> (Inl e, s, w3)
      | (Inr o3, s3, w3) \<Rightarrow> (Inr (StrV (o1 @ o2 @ o3)), s3, w3))))"

definition isUp :: "env \<Rightarrow> py_val \<Rightarrow> intf \<Rightarrow> event list \<Rightarrow> py_val outcome" where
  "isUp E setUp self w =
     (if truthy setUp then
        (case ipLink E [StrV ''up''] self w of
           (Inl e, s, w1) \<Rightarrow> (Inl e, s, w1)
         | (Inr cmdOutput, s, w1) \<Rightarrow>
             (if cmdOutput \<noteq> [] then (Inr (BoolV False), s, w1)
              else (Inr (BoolV True), s, w1)))
      else
        (case ipAddr E [] self w of
           (Inl e, s, w1) \<Rightarrow> (Inl e, s, w1)
         | (Inr out, s, w1) \<Rightarrow> (Inr (BoolV (contains_str ''UP'' (str_val out))), s, w1)))"

text \<open>
  The two patterns of lines 77 and 78 and \<open>findall\<close> on them. \<open>match_ip s\<close> is the match of
  the first pattern (four runs of one or more digits, separated by dots) at the head of
  \<open>s\<close>, with the rest of \<open>s\<close> after it: each run but the last is followed by a dot, so it can
  only be the whole run of digits there, and the last is greedy. \<open>match_mac s\<close> is the match
  of \<open>..:..:..:..:..:..\<close>, seventeen characters with colons at the five places, the others
  any character but a newline. \<open>findall_ip\<close> and \<open>findall_mac\<close> scan from the left,
  continue after a match and move one character on where there is none.
\<close>

definition is_digit :: "char \<Rightarrow> bool" where
  "is_digit c = (c \<in> set ''0123456789'')"

definition digits1 :: "string \<Rightarrow> (string \<times> string) option" where
  "digits1 s =
     (let d = takeWhile is_digit s
      in if d = [] then None else Some (d, dropWhile is_digit s))"

definition dot :: "string \<Rightarrow> string option" where
  "dot s = (case s of [] \<Rightarrow> None | c # r \<Rightarrow> if c = CHR ''.'' then Some r else None)"

definition match_ip :: "string \<Rightarrow> (string \<times> string) option" where
  "match_ip s =
     (case digits1 s of None \<Rightarrow> None | Some (d1, r1) \<Rightarrow>
     (case dot r1 of None \<Rightarrow> None | Some q1 \<Rightarrow>
     (case digits1 q1 of None \<Rightarrow> None | Some (d2, r2) \<Rightarrow>
     (case dot r2 of None \<Rightarrow> None | Some q2 \<Rightarrow>
     (case digits1 q2 of None \<Rightarrow> None | Some (d3, r3) \<Rightarrow>
     (case dot r3 of None \<Rightarrow> None | Some q3 \<Rightarrow>
     (case digits1 q3 of None \<Rightarrow> None | Some (d4, r4) \<Rightarrow>
        Some (d1 @ ''.'' @ d2 @ ''.'' @ d3 @ ''.'' @ d4, r4))))))))"

definition match_mac :: "string \<Rightarrow> (string \<times> string) option" where
  "match_mac s =
     (let m = take 17 s
      in if length m = 17
            \<and> list_all (\<lambda>i. m ! i = CHR '':'') [2, 5, 8, 11, 14]
            \<and> list_all (\<lambda>i. m ! i \<noteq> newline) [0, 1, 3, 4, 6, 7, 9, 10, 12, 13, 15, 16]
         then Some (m, drop 17 s) else None)"

lemma digits1_shorter: "digits1 s = Some (d, r) \<Longrightarrow> length r < length s"
proof -
  assume a: "digits1 s = Some (d, r)"
  then have d: "d = takeWhile is_digit s" "d \<noteq> []" "r = dropWhile is_digit s"
    by (auto simp: digits1_def Let_def split: if_splits)
  have "length (takeWhile is_digit s @ dropWhile is_digit s) = length s"
    by (simp only: takeWhile_dropWhile_id)
  then have "length d + length r = length s" using d by (simp only: length_append)
  moreover have "0 < length d" using d(2) by simp
  ultimately show ?thesis by linarith
qed

lemma dot_shorter: "dot s = Some r \<Longrightarrow> length r < length s"
  by (auto simp: dot_def split: list.splits if_splits)

lemma match_ip_shorter: "match_ip s = Some (m, r) \<Longrightarrow> length r < length s"
  by (fastforce simp: match_ip_def split: option.splits prod.splits
        dest!: digits1_shorter dot_shorter)

lemma match_mac_shorter: "match_mac s = Some (m, r) \<Longrightarrow> length r < length s"
  by (auto simp: match_mac_def Let_def split: if_splits)

function findall_ip :: "string \<Rightarrow> string list" where
  "findall_ip [] = []"
| "findall_ip (c # cs) =
     (case match_ip (c # cs) of
        Some (m, r) \<Rightarrow> m # findall_ip r
      | None \<Rightarrow> findall_ip cs)"
  by pat_completeness auto
termination
  by (relation "measure length") (auto dest: match_ip_shorter)

function findall_mac :: "string \<Rightarrow> string list" where
  "findall_mac [] = []"
| "findall_mac (c # cs) =
     (case match_mac (c # cs) of
        Some (m, r) \<Rightarrow> m # findall_mac r
      | None \<Rightarrow> findall_mac cs)"
  by pat_completeness auto
termination
  by (relation "measure length") (auto dest: match_mac_shorter)

text \<open>
  \<open>updateIP\<close> (lines 80 to 88), \<open>updateMAC\<close> (90 to 95) and \<open>updateAddr\<close> (101 to 108);
  \<open>first_or_None xs\<close> is \<open>xs[0] if xs else None\<close>.
\<close>

definition first_or_None :: "string list \<Rightarrow> py_val" where
  "first_or_None xs = (if xs \<noteq> [] then StrV (xs ! 0) else NoneV)"

definition updateIP :: "env \<Rightarrow> intf \<Rightarrow> event list \<Rightarrow> py_val outcome" where
  "updateIP E self w =
     (case node self of
        None \<Rightarrow> (Inl AttributeError, self, w)
      | Some nd \<Rightarrow>
          (case exec E w (NodePexec (node_name nd) (IpAddrShow (name self))) of
             Inl e \<Rightarrow> (Inl e, self, w)
           | Inr (out, w1) \<Rightarrow>
               (let ips = findall_ip out;
                    s = self\<lparr>ip := first_or_None ips\<rparr>
                in (Inr (ip s), s, w1))))"

definition updateMAC :: "env \<Rightarrow> intf \<Rightarrow> event list \<Rightarrow> py_val outcome" where
  "updateMAC E self w =
     (case ipAddr E [] self w of
        (Inl e, s, w1) \<Rightarrow> (Inl e, s, w1)
      | (Inr out, s, w1) \<Rightarrow>
          (let macs = findall_mac (str_val out);
               s2 = s\<lparr>mac := first_or_None macs\<rparr>
           in (Inr (mac s2), s2, w1)))"

definition updateAddr :: "env \<Rightarrow> intf \<Rightarrow> event list \<Rightarrow> (py_val \<times> py_val) outcome" where
  "updateAddr E self w =
     (case ipAddr E [] self w of
        (Inl e, s, w1) \<Rightarrow> (Inl e, s, w1)
      | (Inr out, s, w1) \<Rightarrow>
          (let ips = findall_ip (str_val out);
               macs = findall_mac (str_val out);
               s2 = s\<lparr>ip := first_or_None ips\<rparr>;
               s3 = s2\<lparr>mac := first_or_None macs\<rparr>
           in (Inr (ip s3, mac s3), s3, w1)))"

text \<open>
  \<open>setParam\<close> (lines 145 to 162) and \<open>config\<close> (164 to 182). \<open>getattr_method\<close> is
  \<open>getattr(self, method, None)\<close> for the methods \<open>config\<close> names, each taking the one value
  \<open>setParam\<close> passes. \<open>config\<close> starts with the bare call \<open>self.setIP(ip)\<close> of line 177.
\<close>

type_synonym results = "string \<Rightarrow> py_val option"

type_synonym bound_method = "py_val \<Rightarrow> intf \<Rightarrow> event list \<Rightarrow> py_val outcome"

definition getattr_method :: "env \<Rightarrow> string \<Rightarrow> bound_method option" where
  "getattr_method E m =
     (if m = ''setMAC'' then Some (setMAC E)
      else if m = ''setIP'' then Some (\<lambda>v. setIP E v NoneV)
      else if m = ''isUp'' then Some (isUp E)
      else if m = ''ipAddr'' then Some (\<lambda>v. ipAddr E [v])
      else None)"

definition setParam ::
  "env \<Rightarrow> results \<Rightarrow> string \<Rightarrow> string \<Rightarrow> py_val \<Rightarrow> intf \<Rightarrow> event list
     \<Rightarrow> (error + py_val) \<times> results \<times> intf \<times> event list" where
  "setParam E r m key val self w =
     (case getattr_method E m of
        None \<Rightarrow> (Inr NoneV, r, self, w)
      | Some f \<Rightarrow>
          (if val = NoneV then (Inr NoneV, r, self, w)
           else
             (case f val self w of
                (Inl e, s, w1) \<Rightarrow> (Inl e, r, s, w1)
              | (Inr res, s, w1) \<Rightarrow> (Inr res, r(key \<mapsto> res), s, w1))))"

definition config ::
  "env \<Rightarrow> py_val \<Rightarrow> py_val \<Rightarrow> py_val \<Rightarrow> py_val \<Rightarrow> intf \<Rightarrow> event list \<Rightarrow> results outcome" where
  "config E macv ipv ipAddrv up self w =
     (case setIP E ipv NoneV self w of
        (Inl e, s, w0) \<Rightarrow> (Inl e, s, w0)
      | (Inr _, s0, w0) \<Rightarrow>
     (case setParam E (\<lambda>k. None) ''setMAC'' ''mac'' macv s0 w0 of
        (Inl e, r, s, w1) \<Rightarrow> (Inl e, s, w1)
      | (Inr _, r1, s1, w1) \<Rightarrow>
     (case setParam E r1 ''setIP'' ''ip'' ipv s1 w1 of
        (Inl e, r, s, w2) \<Rightarrow> (Inl e, s, w2)
      | (Inr _, r2, s2, w2) \<Rightarrow>
     (case setParam E r2 ''isUp'' ''up'' up s2 w2 of
        (Inl e, r, s, w3) \<Rightarrow> (Inl e, s, w3)
      | (Inr _, r3, s3, w3) \<Rightarrow>
     (case setParam E r3 ''ipAddr'' ''ipAddr'' ipAddrv s3 w3 of
        (Inl e, r, s, w4) \<Rightarrow> (Inl e, s, w4)
      | (Inr _, r4, s4, w4) \<Rightarrow> (Inr r4, s4, w4))))))"

text \<open>
  The constructor (lines 11 to 37). \<open>prms\<close> are the keyword arguments left after the named
  ones, so \<open>mac\<close> is never among them and \<open>config\<close> gets its default
  \<open>mac=None\<close>; \<open>param_or prms k d\<close> is the argument \<open>k\<close> or its default.
\<close>

definition param_or :: "(string \<Rightarrow> py_val option) \<Rightarrow> string \<Rightarrow> py_val \<Rightarrow> py_val" where
  "param_or prms k d = (case prms k of None \<Rightarrow> d | Some v \<Rightarrow> v)"

definition IntfSixLoWPAN_init ::
  "env \<Rightarrow> string \<Rightarrow> node option \<Rightarrow> py_val \<Rightarrow> py_val \<Rightarrow> py_val
     \<Rightarrow> (string \<Rightarrow> py_val option) \<Rightarrow> event list \<Rightarrow> (error + intf) \<times> event list" where
  "IntfSixLoWPAN_init E nm nd port lnk macv prms w =
     (let self0 = \<lparr>name = nm, node = nd, link = lnk, mac = macv,
                    ip = NoneV, prefixLen = NoneV, params = (\<lambda>k. None)\<rparr>;
          self1 = (if nm = ''lo'' then self0\<lparr>ip := StrV ''127.0.0.1'', prefixLen := IntV 8\<rparr>
                   else self0);
          moveIntfFn = param_or prms ''moveIntfFn'' NoneV;
          prms1 = (case nd of None \<Rightarrow> prms | Some _ \<Rightarrow> prms(''moveIntfFn'' := None))
      in
      (case (case nd of
               None \<Rightarrow> Inr ([], w)
             | Some n \<Rightarrow> exec E w (AddIntf (node_name n) nm port (truthy moveIntfFn))) of
         Inl e \<Rightarrow> (Inl e, w)
       | Inr (_, w1) \<Rightarrow>
           (case config E NoneV (param_or prms1 ''ip'' NoneV)
                   (param_or prms1 ''ipAddr'' NoneV) (param_or prms1 ''up'' (BoolV True))
                   (self1\<lparr>params := prms1\<rparr>) w1 of
              (Inl e, s, w2) \<Rightarrow> (Inl e, w2)
            | (Inr _, s, w2) \<Rightarrow> (Inr s, w2))))"

text \<open>Concrete inputs: a world that answers every call with one text, and a handle.\<close>

definition env_const :: "string \<Rightarrow> env" where
  "env_const out = \<lparr>run = (\<lambda>w ev. Inr out), newPort = (\<lambda>w n. 0), newWlanPort = (\<lambda>w n. 0)\<rparr>"

definition intf0 :: intf where
  "intf0 = \<lparr>name = ''sta1-lowpan'', node = Some (station ''sta1'' 101 [''sta1-wpan0'']),
            link = NoneV, mac = NoneV, ip = NoneV, prefixLen = NoneV, params = (\<lambda>k. None)\<rparr>"

definition no_address_text :: string where
  "no_address_text = ''Device does not exist.''"

definition not_permitted_text :: string where
  "not_permitted_text = ''RTNETLINK answers: Operation not permitted''"

lemma cmd_self: "cmd E c self w = (x, s, w') \<Longrightarrow> s = self"
  by (auto simp: cmd_def split: option.splits sum.splits prod.splits)

lemma ipLink_self: "ipLink E args self w = (x, s, w') \<Longrightarrow> s = self"
  by (auto simp: ipLink_def dest: cmd_self)

lemma ipAddr_self: "ipAddr E args self w = (x, s, w') \<Longrightarrow> s = self"
  by (auto simp: ipAddr_def split: if_splits sum.splits prod.splits dest!: cmd_self)

lemma cmd_run:
  "node self = Some nd \<Longrightarrow> run E w (NodeCmd (node_name nd) c) = Inr out \<Longrightarrow>
   cmd E c self w = (Inr out, self, w @ [NodeCmd (node_name nd) c])"
  by (simp add: cmd_def exec_def)

text \<open>
  C4. For every handle and every address string without a slash, \<open>setIP\<close> with no prefix
  length raises the exception of line 64; the handle (so its \<open>ip\<close> and \<open>prefixLen\<close>) and
  the history are as before the call: nothing was run.
\<close>

theorem setIP_without_prefix:
  assumes "\<not> contains_char (CHR ''/'') s"
  shows "setIP E (StrV s) NoneV self w = (Inl (NoPrefixLength s), self, w)
       \<and> ip (fst (snd (setIP E (StrV s) NoneV self w))) = ip self
       \<and> prefixLen (fst (snd (setIP E (StrV s) NoneV self w))) = prefixLen self"
  using assms by (simp add: setIP_def)

theorem setIP_without_prefix_witness:
  "\<not> contains_char (CHR ''/'') ''10.0.0.1''
   \<and> setIP env0 (StrV ''10.0.0.1'') NoneV intf0 [] = (Inl (NoPrefixLength ''10.0.0.1''), intf0, [])
   \<and> ip (fst (snd (setIP env0 (StrV ''10.0.0.1'') NoneV intf0 []))) = NoneV
   \<and> prefixLen (fst (snd (setIP env0 (StrV ''10.0.0.1'') NoneV intf0 []))) = NoneV"
proof -
  have h: "\<not> contains_char (CHR ''/'') ''10.0.0.1''" by (simp add: contains_char_def)
  have "ip intf0 = NoneV" "prefixLen intf0 = NoneV" by (simp_all add: intf0_def)
  with h setIP_without_prefix [OF h, of env0 intf0 "[]"] show ?thesis by simp
qed

text \<open>
  C8. For a handle with an owning node, when the bring-up command returns the output
  \<open>out\<close>, \<open>isUp\<close> with \<open>setUp=True\<close> returns \<open>True\<close> if \<open>out\<close> is empty and \<open>False\<close> otherwise; it
  raises nothing and leaves the handle as it was.
\<close>

theorem isUp_setUp:
  assumes "node self = Some nd"
    and "run E w (NodeCmd (node_name nd) (IpLinkSet (name self) [''up''])) = Inr out"
  shows "isUp E (BoolV True) self w =
           (Inr (BoolV (out = [])), self, w @ [NodeCmd (node_name nd) (IpLinkSet (name self) [''up''])])"
proof -
  have "ipLink E [StrV ''up''] self w =
          (Inr out, self, w @ [NodeCmd (node_name nd) (IpLinkSet (name self) [''up''])])"
    using cmd_run [OF assms] by (simp add: ipLink_def str_val_def)
  then show ?thesis by (simp add: isUp_def truthy_def)
qed

theorem isUp_setUp_witness:
  "isUp (env_const []) (BoolV True) intf0 [] =
     (Inr (BoolV True), intf0, [NodeCmd ''sta1'' (IpLinkSet ''sta1-lowpan'' [''up''])])
   \<and> isUp (env_const not_permitted_text) (BoolV True) intf0 [] =
     (Inr (BoolV False), intf0, [NodeCmd ''sta1'' (IpLinkSet ''sta1-lowpan'' [''up''])])"
proof -
  have n: "node intf0 = Some (station ''sta1'' 101 [''sta1-wpan0''])" by (simp add: intf0_def)
  have nm: "node_name (station ''sta1'' 101 [''sta1-wpan0'']) = ''sta1''" "name intf0 = ''sta1-lowpan''"
    by (simp_all add: station_def intf0_def)
  have r1: "run (env_const []) [] (NodeCmd (node_name (station ''sta1'' 101 [''sta1-wpan0'']))
              (IpLinkSet (name intf0) [''up''])) = Inr []"
    by (simp add: env_const_def)
  have r2: "run (env_const not_permitted_text) [] (NodeCmd (node_name (station ''sta1'' 101 [''sta1-wpan0'']))
              (IpLinkSet (name intf0) [''up''])) = Inr not_permitted_text"
    by (simp add: env_const_def)
  have ne: "not_permitted_text \<noteq> []" by (simp add: not_permitted_text_def)
  from isUp_setUp [OF n r1] isUp_setUp [OF n r2] ne nm show ?thesis by simp
qed

lemma first_or_None_Nil: "first_or_None [] = NoneV"
  by (simp add: first_or_None_def)

text \<open>
  C10. For a handle with an owning node and any output of the address query,
  \<open>updateIP\<close>, \<open>updateMAC\<close> and \<open>updateAddr\<close> return: the field is set to, and the result
  is, the first match of the pattern or \<open>None\<close>, and it is \<open>None\<close> whenever the pattern finds
  no match in the output.
\<close>

theorem update_no_match:
  assumes "node self = Some nd"
    and "run E w (NodePexec (node_name nd) (IpAddrShow (name self))) = Inr pout"
    and "run E w (NodeCmd (node_name nd) (IpAddrShow (name self))) = Inr cout"
  shows "updateIP E self w =
           (Inr (first_or_None (findall_ip pout)), self\<lparr>ip := first_or_None (findall_ip pout)\<rparr>,
            w @ [NodePexec (node_name nd) (IpAddrShow (name self))])
       \<and> updateMAC E self w =
           (Inr (first_or_None (findall_mac cout)), self\<lparr>mac := first_or_None (findall_mac cout)\<rparr>,
            w @ [NodeCmd (node_name nd) (IpAddrShow (name self))])
       \<and> updateAddr E self w =
           (Inr (first_or_None (findall_ip cout), first_or_None (findall_mac cout)),
            self\<lparr>ip := first_or_None (findall_ip cout), mac := first_or_None (findall_mac cout)\<rparr>,
            w @ [NodeCmd (node_name nd) (IpAddrShow (name self))])
       \<and> (findall_ip pout = [] \<longrightarrow> first_or_None (findall_ip pout) = NoneV)
       \<and> (findall_ip cout = [] \<longrightarrow> first_or_None (findall_ip cout) = NoneV)
       \<and> (findall_mac cout = [] \<longrightarrow> first_or_None (findall_mac cout) = NoneV)"
proof -
  have a: "ipAddr E [] self w =
      (Inr (StrV cout), self, w @ [NodeCmd (node_name nd) (IpAddrShow (name self))])"
    using cmd_run [OF assms(1,3)] by (simp add: ipAddr_def)
  have 1: "updateIP E self w =
           (Inr (first_or_None (findall_ip pout)), self\<lparr>ip := first_or_None (findall_ip pout)\<rparr>,
            w @ [NodePexec (node_name nd) (IpAddrShow (name self))])"
    using assms(1,2) by (simp add: updateIP_def exec_def Let_def)
  have 2: "updateMAC E self w =
           (Inr (first_or_None (findall_mac cout)), self\<lparr>mac := first_or_None (findall_mac cout)\<rparr>,
            w @ [NodeCmd (node_name nd) (IpAddrShow (name self))])"
    using a by (simp add: updateMAC_def Let_def str_val_def)
  have 3: "updateAddr E self w =
           (Inr (first_or_None (findall_ip cout), first_or_None (findall_mac cout)),
            self\<lparr>ip := first_or_None (findall_ip cout), mac := first_or_None (findall_mac cout)\<rparr>,
            w @ [NodeCmd (node_name nd) (IpAddrShow (name self))])"
    using a by (simp add: updateAddr_def Let_def str_val_def)
  show ?thesis using 1 2 3 by (simp add: first_or_None_Nil)
qed

theorem update_no_match_witness:
  "updateIP (env_const no_address_text) intf0 [] =
     (Inr NoneV, intf0\<lparr>ip := NoneV\<rparr>, [NodePexec ''sta1'' (IpAddrShow ''sta1-lowpan'')])
   \<and> updateMAC (env_const no_address_text) intf0 [] =
     (Inr NoneV, intf0\<lparr>mac := NoneV\<rparr>, [NodeCmd ''sta1'' (IpAddrShow ''sta1-lowpan'')])
   \<and> updateAddr (env_const no_address_text) intf0 [] =
     (Inr (NoneV, NoneV), intf0\<lparr>ip := NoneV, mac := NoneV\<rparr>,
      [NodeCmd ''sta1'' (IpAddrShow ''sta1-lowpan'')])"
proof -
  have n: "node intf0 = Some (station ''sta1'' 101 [''sta1-wpan0''])" by (simp add: intf0_def)
  have nm: "node_name (station ''sta1'' 101 [''sta1-wpan0'']) = ''sta1''" "name intf0 = ''sta1-lowpan''"
    by (simp_all add: station_def intf0_def)
  have r1: "run (env_const no_address_text) [] (NodePexec (node_name (station ''sta1'' 101 [''sta1-wpan0'']))
              (IpAddrShow (name intf0))) = Inr no_address_text"
    by (simp add: env_const_def)
  have r2: "run (env_const no_address_text) [] (NodeCmd (node_name (station ''sta1'' 101 [''sta1-wpan0'']))
              (IpAddrShow (name intf0))) = Inr no_address_text"
    by (simp add: env_const_def)
  have f1: "findall_ip no_address_text = []" by code_simp
  have f2: "findall_mac no_address_text = []" by code_simp
  from update_no_match [OF n r1 r2] f1 f2 nm show ?thesis by (simp add: first_or_None_Nil)
qed

section \<open>link.py: the link establisher\<close>

text \<open>
  \<open>configIface\<close> (lines 216 to 244) and \<open>wpanName\<close> (246 to 250). \<open>prepare_radio\<close> is the
  six \<open>node.cmd\<close> calls of lines 219 to 225 with the lookups their command strings need
  (\<open>wlan0\<close> is \<open>node.params['wlan'][0]\<close>, \<open>ip0\<close> is \<open>node.params['ip'][0]\<close>); when a
  step fails it gives the exception with the history of the commands run until then. The local
  variable \<open>intfName1\<close> is \<open>None\<close> while it is unbound: it is bound only under
  \<open>if not intfName\<close>, and reading it unbound at line 239 raises \<open>UnboundLocalError\<close>.
  \<open>cls\<close> is the constructor to call, \<open>IntfSixLoWPAN\<close> when none is given; the call
  \<open>cls(node=node, mac=addr, **params)\<close> raises \<open>TypeError\<close> when \<open>params\<close> names
  \<open>node\<close> or \<open>mac\<close> again.
\<close>

definition wpanName :: "node \<Rightarrow> string \<Rightarrow> int \<Rightarrow> string" where
  "wpanName nd ifacename n = node_name nd @ ''-'' @ ifacename"

type_synonym ctor =
  "env \<Rightarrow> string \<Rightarrow> node option \<Rightarrow> py_val \<Rightarrow> py_val \<Rightarrow> py_val
     \<Rightarrow> (string \<Rightarrow> py_val option) \<Rightarrow> event list \<Rightarrow> (error + intf) \<times> event list"

definition node_cmd :: "env \<Rightarrow> node \<Rightarrow> command \<Rightarrow> event list \<Rightarrow> error + event list" where
  "node_cmd E nd c w =
     (case exec E w (NodeCmd (node_name nd) c) of
        Inl e \<Rightarrow> Inl e
      | Inr (_, w1) \<Rightarrow> Inr w1)"

definition wlan0 :: "node \<Rightarrow> error + string" where
  "wlan0 nd =
     (case node_params nd ''wlan'' of
        None \<Rightarrow> Inl (KeyError ''wlan'')
      | Some [] \<Rightarrow> Inl IndexError
      | Some (x # _) \<Rightarrow> Inr x)"

definition ip0 :: "node \<Rightarrow> error + string" where
  "ip0 nd =
     (case node_params nd ''ip'' of
        None \<Rightarrow> Inl (KeyError ''ip'')
      | Some [] \<Rightarrow> Inl IndexError
      | Some (x # _) \<Rightarrow> Inr x)"

definition prepare_radio ::
  "env \<Rightarrow> node \<Rightarrow> (string \<Rightarrow> py_val option) \<Rightarrow> event list
     \<Rightarrow> (error \<times> event list) + event list" where
  "prepare_radio E nd prms w =
     (case node_cmd E nd IpLinkSetLoUp w of Inl e \<Rightarrow> Inl (e, w) | Inr w1 \<Rightarrow>
     (case wlan0 nd of Inl e \<Rightarrow> Inl (e, w1) | Inr wl \<Rightarrow>
     (case node_cmd E nd (IpLinkSetDown wl) w1 of Inl e \<Rightarrow> Inl (e, w1) | Inr w2 \<Rightarrow>
     (case prms ''panid'' of None \<Rightarrow> Inl (KeyError ''panid'', w2) | Some panid \<Rightarrow>
     (case node_cmd E nd (IwpanSetPanId wl (str_val panid)) w2 of Inl e \<Rightarrow> Inl (e, w2) | Inr w3 \<Rightarrow>
     (case node_cmd E nd (IpLinkAddLowpan wl (node_name nd)) w3 of Inl e \<Rightarrow> Inl (e, w3) | Inr w4 \<Rightarrow>
     (case node_cmd E nd (IpLinkSetUp wl) w4 of Inl e \<Rightarrow> Inl (e, w4) | Inr w5 \<Rightarrow>
     (case node_cmd E nd (IpLinkSetUp (node_name nd @ ''-lowpan'')) w5 of
        Inl e \<Rightarrow> Inl (e, w5) | Inr w6 \<Rightarrow> Inr w6))))))))"

definition configIface ::
  "env \<Rightarrow> node \<Rightarrow> py_val \<Rightarrow> py_val \<Rightarrow> py_val \<Rightarrow> ctor option
     \<Rightarrow> (string \<Rightarrow> py_val option) \<Rightarrow> event list
     \<Rightarrow> (error + (intf \<times> string)) \<times> event list" where
  "configIface E nd port intfName addr cls prms w =
     (case prepare_radio E nd prms w of
        Inl (e, w') \<Rightarrow> (Inl e, w')
      | Inr w6 \<Rightarrow>
          (let prms1 = (if port \<noteq> NoneV then prms(''port'' \<mapsto> port) else prms);
               w7 = (if prms1 ''port'' = None then w6 @ [NewPort (node_name nd)] else w6);
               prms2 = (if prms1 ''port'' = None
                        then prms1(''port'' \<mapsto> IntV (newPort E w6 (node_name nd))) else prms1);
               w8 = (if \<not> truthy intfName then w7 @ [NewWlanPort (node_name nd)] else w7);
               intfName1 = (if \<not> truthy intfName
                            then Some (wpanName nd ''lowpan'' (newWlanPort E w7 (node_name nd)))
                            else None);
               cls1 = (case cls of None \<Rightarrow> IntfSixLoWPAN_init | Some c \<Rightarrow> c)
           in
           (case ip0 nd of
              Inl e \<Rightarrow> (Inl e, w8)
            | Inr ipstr \<Rightarrow>
                (case intfName1 of
                   None \<Rightarrow> (Inl (UnboundLocalError ''intfName1''), w8)
                 | Some nm \<Rightarrow>
                     if prms2 ''node'' \<noteq> None \<or> prms2 ''mac'' \<noteq> None then (Inl TypeError, w8)
                     else
                     (case cls1 E nm (Some nd) (param_or prms2 ''port'' NoneV)
                             (param_or prms2 ''link'' NoneV) addr
                             ((prms2(''ip'' \<mapsto> StrV ipstr))(''port'' := None, ''link'' := None, ''name'' := None)) w8 of
                        (Inl e, w9) \<Rightarrow> (Inl e, w9)
                      | (Inr intf1, w9) \<Rightarrow> (Inr (intf1, ''6LoWPAN''), w9))))))"

text \<open>Concrete inputs: a station with a radio and an address, and a PAN id.\<close>

definition lowpan_node :: node where
  "lowpan_node =
     \<lparr>node_name = ''sta1'', node_class = Station, node_pid = 101,
      node_params = (\<lambda>k. if k = ''wlan'' then Some [''sta1-wpan0'']
                         else if k = ''ip'' then Some [''10.0.0.1/8''] else None),
      node_phyID = [0], node_ifb = []\<rparr>"

definition panid_params :: "string \<Rightarrow> py_val option" where
  "panid_params = (\<lambda>k. if k = ''panid'' then Some (StrV ''0xbeef'') else None)"

lemma config_defaults_raise_aux:
  "config E NoneV NoneV ipAddrv up self w = (Inl TypeError, self, w)"
  by (simp add: config_def setIP_def)

lemma setIP_None_Inr:
  "setIP E v NoneV self w = (Inr x, s, w') \<Longrightarrow> \<exists>b. prefixLen s = StrV b"
  by (auto simp: setIP_def split: py_val.splits if_splits list.splits dest!: ipAddr_self)

lemma setIP_None_any:
  "setIP E v NoneV self w = (x, s, w') \<Longrightarrow>
   prefixLen s = prefixLen self \<or> (\<exists>b. prefixLen s = StrV b)"
  by (auto simp: setIP_def split: py_val.splits if_splits list.splits dest!: ipAddr_self)

lemma setMAC_prefixLen: "setMAC E v self w = (x, s, w') \<Longrightarrow> prefixLen s = prefixLen self"
  by (auto simp: setMAC_def split: prod.splits sum.splits dest!: ipLink_self)

lemma isUp_self: "isUp E v self w = (x, s, w') \<Longrightarrow> s = self"
  by (auto simp: isUp_def split: if_splits prod.splits sum.splits dest!: ipLink_self ipAddr_self)

lemma setParam_prefixLen:
  assumes "setParam E r m key v self w = (x, r', s, w')" and "prefixLen self = StrV b"
  shows "\<exists>b'. prefixLen s = StrV b'"
proof (cases "getattr_method E m")
  case None
  with assms show ?thesis by (simp add: setParam_def)
next
  case (Some f)
  show ?thesis
  proof (cases "v = NoneV")
    case True
    with assms Some show ?thesis by (simp add: setParam_def)
  next
    case False
    obtain y s1 w1 where f: "f v self w = (y, s1, w1)" by (metis prod_cases3)
    with assms(1) Some False have s: "s = s1"
      by (auto simp: setParam_def split: sum.splits)
    from Some consider "f = setMAC E" | "f = (\<lambda>v. setIP E v NoneV)" | "f = isUp E"
      | "f = (\<lambda>v. ipAddr E [v])"
      by (auto simp: getattr_method_def split: if_splits)
    then show ?thesis
    proof cases
      case 1
      with f assms(2) s show ?thesis by (auto dest: setMAC_prefixLen)
    next
      case 2
      with f have "setIP E v NoneV self w = (y, s1, w1)" by simp
      from setIP_None_any [OF this] assms(2) s show ?thesis by auto
    next
      case 3
      with f assms(2) s show ?thesis by (auto dest: isUp_self)
    next
      case 4
      with f assms(2) s show ?thesis by (auto dest: ipAddr_self)
    qed
  qed
qed

lemma config_prefixLen:
  assumes "config E macv ipv ipAddrv up self w = (Inr r, s, w')"
  shows "\<exists>b. prefixLen s = StrV b"
proof -
  from assms obtain x0 s0 w0 x1 r1 s1 w1 x2 r2 s2 w2 x3 r3 s3 w3 x4 where
    a0: "setIP E ipv NoneV self w = (Inr x0, s0, w0)"
    and a1: "setParam E (\<lambda>k. None) ''setMAC'' ''mac'' macv s0 w0 = (Inr x1, r1, s1, w1)"
    and a2: "setParam E r1 ''setIP'' ''ip'' ipv s1 w1 = (Inr x2, r2, s2, w2)"
    and a3: "setParam E r2 ''isUp'' ''up'' up s2 w2 = (Inr x3, r3, s3, w3)"
    and a4: "setParam E r3 ''ipAddr'' ''ipAddr'' ipAddrv s3 w3 = (Inr x4, r, s, w')"
    by (auto simp: config_def split: prod.splits sum.splits)
  from setIP_None_Inr [OF a0] obtain b0 where "prefixLen s0 = StrV b0" by blast
  from setParam_prefixLen [OF a1 this] obtain b1 where "prefixLen s1 = StrV b1" by blast
  from setParam_prefixLen [OF a2 this] obtain b2 where "prefixLen s2 = StrV b2" by blast
  from setParam_prefixLen [OF a3 this] obtain b3 where "prefixLen s3 = StrV b3" by blast
  from setParam_prefixLen [OF a4 this] show ?thesis .
qed

text \<open>
  C2, as the code behaves. \<open>config\<close> with \<open>mac\<close>, \<open>ip\<close> and \<open>ipAddr\<close> absent and \<open>up=True\<close>
  raises \<open>TypeError\<close> in the bare \<open>self.setIP(ip)\<close> of line 177, where \<open>'/' in None\<close> is
  evaluated: no command is run, the up/down step is not reached and no result mapping is
  returned.
\<close>

theorem config_defaults_raise:
  "config E NoneV NoneV NoneV (BoolV True) self w = (Inl TypeError, self, w)"
  by (simp add: config_def setIP_def)

text \<open>
  C7, as the code behaves. Constructing a handle named \<open>lo\<close> sets the loopback address and
  then calls \<open>config\<close>, whose bare \<open>self.setIP(ip)\<close> raises \<open>TypeError\<close> when no \<open>ip\<close> is
  given (with or without an owning node), so no handle is returned; and whatever the
  arguments, no construction returns a handle whose \<open>prefixLen\<close> is the integer 8, since a
  construction that returns has gone through \<open>setIP\<close> with a string that holds the prefix.
\<close>

theorem lo_construction_raises:
  "IntfSixLoWPAN_init E ''lo'' None NoneV NoneV NoneV (\<lambda>k. None) w = (Inl TypeError, w)
   \<and> IntfSixLoWPAN_init env0 ''lo'' (Some lowpan_node) NoneV NoneV NoneV (\<lambda>k. None) [] =
       (Inl TypeError, [AddIntf ''sta1'' ''lo'' NoneV False])
   \<and> \<not> (\<exists>h w'. IntfSixLoWPAN_init E ''lo'' nd port lnk macv prms w = (Inr h, w')
              \<and> prefixLen h = IntV 8)"
proof -
  have 1: "IntfSixLoWPAN_init E ''lo'' None NoneV NoneV NoneV (\<lambda>k. None) w = (Inl TypeError, w)"
    by (simp add: IntfSixLoWPAN_init_def Let_def param_or_def config_defaults_raise_aux)
  have 2: "IntfSixLoWPAN_init env0 ''lo'' (Some lowpan_node) NoneV NoneV NoneV (\<lambda>k. None) [] =
       (Inl TypeError, [AddIntf ''sta1'' ''lo'' NoneV False])"
    by (simp add: IntfSixLoWPAN_init_def Let_def param_or_def config_defaults_raise_aux
        exec_def env0_def lowpan_node_def truthy_def)
  have 3: "prefixLen h \<noteq> IntV 8"
    if "IntfSixLoWPAN_init E ''lo'' nd port lnk macv prms w = (Inr h, w')" for h w'
  proof -
    from that obtain m i a u s0 w1 r where "config E m i a u s0 w1 = (Inr r, h, w')"
      by (auto simp: IntfSixLoWPAN_init_def Let_def split: sum.splits prod.splits)
    from config_prefixLen [OF this] show ?thesis by auto
  qed
  show ?thesis using 1 2 3 by blast
qed

text \<open>
  C9. For every call of \<open>configIface\<close> with an \<open>intfName\<close> that Python takes as true (a
  non-empty string), the call returns no link but an exception; the result is the same for
  every such name and every constructor, so neither is used; and when the steps before
  line 239 succeed (the radio is prepared, the node has an address), the exception is the
  \<open>UnboundLocalError\<close> of \<open>intfName1\<close>.
\<close>

theorem configIface_explicit_name:
  assumes "truthy intfName"
  shows "(\<exists>e w'. configIface E nd port intfName addr cls prms w = (Inl e, w'))
       \<and> (\<forall>name' cls'. truthy name' \<longrightarrow>
             configIface E nd port name' addr cls' prms w =
             configIface E nd port intfName addr cls prms w)
       \<and> (\<forall>w6 ipstr. prepare_radio E nd prms w = Inr w6 \<and> ip0 nd = Inr ipstr \<longrightarrow>
             fst (configIface E nd port intfName addr cls prms w) =
             Inl (UnboundLocalError ''intfName1''))"
proof -
  have 1: "\<exists>e w'. configIface E nd port intfName addr cls prms w = (Inl e, w')"
    using assms by (simp add: configIface_def Let_def split: sum.splits)
  have 2: "configIface E nd port name' addr cls' prms w =
           configIface E nd port intfName addr cls prms w" if "truthy name'" for name' cls'
    using assms that by (simp add: configIface_def Let_def split: sum.splits)
  have 3: "fst (configIface E nd port intfName addr cls prms w) =
             Inl (UnboundLocalError ''intfName1'')"
    if "prepare_radio E nd prms w = Inr w6" "ip0 nd = Inr ipstr" for w6 ipstr
    using assms that by (simp add: configIface_def Let_def)
  show ?thesis using 1 2 3 by blast
qed

theorem configIface_explicit_name_witness:
  "truthy (StrV ''sta1-wpan'')
   \<and> prepare_radio env0 lowpan_node panid_params [] =
       Inr [NodeCmd ''sta1'' IpLinkSetLoUp,
            NodeCmd ''sta1'' (IpLinkSetDown ''sta1-wpan0''),
            NodeCmd ''sta1'' (IwpanSetPanId ''sta1-wpan0'' ''0xbeef''),
            NodeCmd ''sta1'' (IpLinkAddLowpan ''sta1-wpan0'' ''sta1''),
            NodeCmd ''sta1'' (IpLinkSetUp ''sta1-wpan0''),
            NodeCmd ''sta1'' (IpLinkSetUp ''sta1-lowpan'')]
   \<and> ip0 lowpan_node = Inr ''10.0.0.1/8''
   \<and> fst (configIface env0 lowpan_node NoneV (StrV ''sta1-wpan'') NoneV None panid_params []) =
       Inl (UnboundLocalError ''intfName1'')"
proof -
  have t: "truthy (StrV ''sta1-wpan'')" by (simp add: truthy_def)
  have p: "prepare_radio env0 lowpan_node panid_params [] =
       Inr [NodeCmd ''sta1'' IpLinkSetLoUp,
            NodeCmd ''sta1'' (IpLinkSetDown ''sta1-wpan0''),
            NodeCmd ''sta1'' (IwpanSetPanId ''sta1-wpan0'' ''0xbeef''),
            NodeCmd ''sta1'' (IpLinkAddLowpan ''sta1-wpan0'' ''sta1''),
            NodeCmd ''sta1'' (IpLinkSetUp ''sta1-wpan0''),
            NodeCmd ''sta1'' (IpLinkSetUp ''sta1-lowpan'')]"
    by (simp add: prepare_radio_def node_cmd_def exec_def env0_def wlan0_def lowpan_node_def
        panid_params_def str_val_def)
  have i: "ip0 lowpan_node = Inr ''10.0.0.1/8''" by (simp add: ip0_def lowpan_node_def)
  from configIface_explicit_name [OF t, of env0 lowpan_node NoneV NoneV None panid_params "[]"] p i
  have "fst (configIface env0 lowpan_node NoneV (StrV ''sta1-wpan'') NoneV None panid_params []) =
       Inl (UnboundLocalError ''intfName1'')"
    by blast
  with t p i show ?thesis by blast
qed

end

